theory Spec2Isabelle
  imports Complex_Main
begin

section \<open>Strings and numbers of the host language\<close>

text \<open>
  The program is TypeScript. A string is modelled as a \<^typ>\<open>string\<close> over ASCII; a
  \<^verbatim>\<open>number\<close> is modelled as an exact rational (\<^typ>\<open>rat\<close>): rule bounds come from
  \<^verbatim>\<open>parseInt\<close> and are integers, font sizes are an integer divided by 100. The value
  \<^verbatim>\<open>undefined\<close> of an optional field is \<^const>\<open>None\<close>. \<^verbatim>\<open>NaN\<close> is falsy and fails
  every comparison, which is what every check of the validator does with \<^verbatim>\<open>undefined\<close>
  too, so it is modelled as \<^const>\<open>None\<close> as well.
\<close>

definition lower_char :: "char \<Rightarrow> char" where
  "lower_char c =
     (case map_of (zip ''ABCDEFGHIJKLMNOPQRSTUVWXYZ'' ''abcdefghijklmnopqrstuvwxyz'') c of
        Some l \<Rightarrow> l
      | None \<Rightarrow> c)"

text \<open>\<^verbatim>\<open>String.prototype.toLowerCase\<close>, on ASCII.\<close>

definition toLowerCase :: "string \<Rightarrow> string" where
  "toLowerCase s = map lower_char s"

text \<open>\<^verbatim>\<open>s.startsWith(p)\<close>, \<^verbatim>\<open>s.endsWith(p)\<close> and \<^verbatim>\<open>s.includes(p)\<close>.\<close>

fun startsWith :: "string \<Rightarrow> string \<Rightarrow> bool" where
  "startsWith s [] = True"
| "startsWith [] (p # ps) = False"
| "startsWith (c # cs) (p # ps) = (c = p \<and> startsWith cs ps)"

definition endsWith :: "string \<Rightarrow> string \<Rightarrow> bool" where
  "endsWith s p = startsWith (rev s) (rev p)"

fun str_includes :: "string \<Rightarrow> string \<Rightarrow> bool" where
  "str_includes [] p = (p = [])"
| "str_includes (c # cs) p = (startsWith (c # cs) p \<or> str_includes cs p)"

text \<open>\<^verbatim>\<open>xs.join(sep)\<close> on an array of strings.\<close>

fun join :: "string \<Rightarrow> string list \<Rightarrow> string" where
  "join sep [] = []"
| "join sep [x] = x"
| "join sep (x # y # ys) = x @ sep @ join sep (y # ys)"

text \<open>
  The decimal digits of a natural number, and a number as a template literal prints it
  (\<^verbatim>\<open>`${n}`\<close>): exact on the integers and on the finite decimals of at most twenty
  fractional digits (a font size is an integer over 100), the values the program
  computes; exponent notation of very large or very small numbers is outside the model.
\<close>

definition digit_char :: "nat \<Rightarrow> char" where
  "digit_char d = ''0123456789'' ! d"

fun digits :: "nat \<Rightarrow> string" where
  "digits n = (if n < 10 then [digit_char n] else digits (n div 10) @ [digit_char (n mod 10)])"

declare digits.simps [simp del]

fun frac_digits :: "nat \<Rightarrow> rat \<Rightarrow> string" where
  "frac_digits 0 f = []"
| "frac_digits (Suc k) f =
     (if f = 0 then []
      else (let d = nat \<lfloor>f * 10\<rfloor> in digit_char d # frac_digits k (f * 10 - of_nat d)))"

definition number_to_string :: "rat \<Rightarrow> string" where
  "number_to_string q =
     (let a = \<bar>q\<bar>; ip = nat \<lfloor>a\<rfloor>; fr = a - of_nat ip
      in (if q < 0 then ''-'' else '''') @ digits ip
         @ (if fr = 0 then '''' else ''.'' @ frac_digits 20 fr))"

text \<open>
  White space as \<^verbatim>\<open>\s\<close> and \<^verbatim>\<open>trim\<close> see it, on ASCII: space, tab, line feed,
  vertical tab, form feed, carriage return.
\<close>

definition is_space :: "char \<Rightarrow> bool" where
  "is_space c = (c \<in> set [CHR '' '', CHR 0x09, CHR 0x0A, CHR 0x0B, CHR 0x0C, CHR 0x0D])"

definition is_digit :: "char \<Rightarrow> bool" where
  "is_digit c = (c \<in> set ''0123456789'')"

definition trim :: "string \<Rightarrow> string" where
  "trim s = rev (dropWhile is_space (rev (dropWhile is_space s)))"

text \<open>
  \<^verbatim>\<open>parseInt(s, 10)\<close>: leading white space, an optional sign, then the longest run of
  decimal digits; \<^verbatim>\<open>NaN\<close> (here \<^const>\<open>None\<close>) when there is no digit. The calls of
  the program that give no radix pass a string of decimal digits, for which the radix
  is 10 as well.
\<close>

definition digit_value :: "char \<Rightarrow> nat" where
  "digit_value c = length (takeWhile (\<lambda>d. d \<noteq> c) ''0123456789'')"

definition digits_value :: "string \<Rightarrow> nat" where
  "digits_value ds = foldl (\<lambda>a c. 10 * a + digit_value c) 0 ds"

definition parseInt :: "string \<Rightarrow> int option" where
  "parseInt s =
     (let s1 = dropWhile is_space s;
          neg = (case s1 of c # _ \<Rightarrow> c = CHR ''-'' | [] \<Rightarrow> False);
          s2 = (case s1 of c # cs \<Rightarrow> if c = CHR ''-'' \<or> c = CHR ''+'' then cs else s1 | [] \<Rightarrow> s1);
          ds = takeWhile is_digit s2
      in if ds = [] then None
         else Some (if neg then - int (digits_value ds) else int (digits_value ds)))"

text \<open>\<^verbatim>\<open>s.split('\n')\<close>: the pieces between the occurrences of one character.\<close>

fun split_char :: "char \<Rightarrow> string \<Rightarrow> string \<Rightarrow> string list" where
  "split_char sep piece [] = [piece]"
| "split_char sep piece (c # cs) =
     (if c = sep then piece # split_char sep [] cs else split_char sep (piece @ [c]) cs)"

subsection \<open>Regular expressions\<close>

text \<open>
  The regular expressions of the program, as a datatype, with the backtracking matcher
  of the host language: \<open>rx_run r s\<close> lists every way \<open>r\<close> matches a prefix of \<open>s\<close>, in
  the order the engine tries them (a greedy quantifier longest first, a lazy one shortest
  first, an alternative left to right), each with the text of the capture group (every
  expression of the program has exactly one, or none) and the rest of the input. The
  engine's answer is the head of the list at the leftmost position that has one.
  Quantifiers occur on character classes only. \<open>LitI\<close> is a literal under the
  \<^verbatim>\<open>i\<close> flag.
\<close>

datatype cls = Digit | Space | AnyOf string | NoneOf string

fun in_cls :: "cls \<Rightarrow> char \<Rightarrow> bool" where
  "in_cls Digit c = is_digit c"
| "in_cls Space c = is_space c"
| "in_cls (AnyOf cs) c = (c \<in> set cs)"
| "in_cls (NoneOf cs) c = (c \<notin> set cs)"

datatype rx =
    Lit string
  | LitI string
  | One cls
  | Many cls
  | Many1 cls
  | Lazy1 cls
  | Opt rx
  | Seq rx rx
  | Alt rx rx
  | Grp rx
  | Eol

text \<open>The inputs left after a greedy \<^verbatim>\<open>*\<close> on a class: the longest match first.\<close>

fun greedy :: "cls \<Rightarrow> string \<Rightarrow> string list" where
  "greedy k [] = [[]]"
| "greedy k (c # cs) = (if in_cls k c then greedy k cs @ [c # cs] else [c # cs])"

fun later_group :: "string option \<Rightarrow> string option \<Rightarrow> string option" where
  "later_group g None = g"
| "later_group g (Some x) = Some x"

fun rx_run :: "rx \<Rightarrow> string \<Rightarrow> (string option \<times> string) list" where
  "rx_run (Lit p) s = (if startsWith s p then [(None, drop (length p) s)] else [])"
| "rx_run (LitI p) s =
     (if toLowerCase (take (length p) s) = toLowerCase p then [(None, drop (length p) s)] else [])"
| "rx_run (One k) s =
     (case s of [] \<Rightarrow> [] | c # cs \<Rightarrow> if in_cls k c then [(None, cs)] else [])"
| "rx_run (Many k) s = map (Pair None) (greedy k s)"
| "rx_run (Many1 k) s =
     (case s of [] \<Rightarrow> [] | c # cs \<Rightarrow> if in_cls k c then map (Pair None) (greedy k cs) else [])"
| "rx_run (Lazy1 k) s =
     (case s of [] \<Rightarrow> []
      | c # cs \<Rightarrow> if in_cls k c then map (Pair None) (rev (greedy k cs)) else [])"
| "rx_run (Opt a) s = rx_run a s @ [(None, s)]"
| "rx_run (Seq a b) s =
     concat (map (\<lambda>m. map (\<lambda>m'. (later_group (fst m) (fst m'), snd m')) (rx_run b (snd m)))
               (rx_run a s))"
| "rx_run (Alt a b) s = rx_run a s @ rx_run b s"
| "rx_run (Grp a) s =
     map (\<lambda>m. (Some (take (length s - length (snd m)) s), snd m)) (rx_run a s)"
| "rx_run Eol s = (if s = [] then [(None, [])] else [])"

fun seqs :: "rx list \<Rightarrow> rx" where
  "seqs [] = Lit []"
| "seqs [r] = r"
| "seqs (r # rs) = Seq r (seqs rs)"

text \<open>
  \<^verbatim>\<open>s.match(r)\<close> for an expression without the \<^verbatim>\<open>g\<close> flag: \<^const>\<open>None\<close> is
  \<^verbatim>\<open>null\<close>, \<open>Some g\<close> a match whose element \<^verbatim>\<open>[1]\<close> is \<open>g\<close>.
\<close>

fun rx_match :: "rx \<Rightarrow> string \<Rightarrow> string option option" where
  "rx_match r [] = (case rx_run r [] of [] \<Rightarrow> None | m # _ \<Rightarrow> Some (fst m))"
| "rx_match r (c # cs) =
     (case rx_run r (c # cs) of [] \<Rightarrow> rx_match r cs | m # _ \<Rightarrow> Some (fst m))"

text \<open>
  \<^verbatim>\<open>s.split(r)\<close>: at each position the separator is tried; where it matches, the piece
  read so far ends and reading goes on after the match. No separator of the program
  matches the empty string; a match that consumes nothing is treated as no match.
\<close>

function split_rx :: "rx \<Rightarrow> string \<Rightarrow> string \<Rightarrow> string list" where
  "split_rx sep piece [] = [piece]"
| "split_rx sep piece (c # cs) =
     (case rx_run sep (c # cs) of
        [] \<Rightarrow> split_rx sep (piece @ [c]) cs
      | m # _ \<Rightarrow>
          if length (snd m) < length (c # cs) then piece # split_rx sep [] (snd m)
          else split_rx sep (piece @ [c]) cs)"
  by pat_completeness auto
termination
  by (relation "measure (\<lambda>(sep, piece, s). length s)") auto

section \<open>Data model\<close>

text \<open>
  The interfaces of the program as records, with the names of their fields. Where two
  interfaces share a field name, or a name is taken, the field has a prefix: a rule's
  \<^verbatim>\<open>id\<close>, \<^verbatim>\<open>description\<close> and \<^verbatim>\<open>type\<close> are \<open>rule_id\<close>, \<open>rule_description\<close> and
  \<open>rule_type\<close>; the \<^verbatim>\<open>type\<close> of an image, a shape and a background, and the other
  fields of the latter two, carry the name of their interface.
\<close>

record TextRun =
  content :: string
  fontSize :: "rat option"
  fontFamily :: "string option"
  color :: "string option"
  isBold :: "bool option"
  isItalic :: "bool option"

record ImageRef =
  name :: string
  image_type :: string

record ShapeRef =
  shape_type :: string
  shape_text :: "string option"

record Background =
  bg_type :: string
  bg_color :: "string option"
  bg_image :: "string option"

record SlideContent =
  slideNumber :: nat
  texts :: "TextRun list"
  images :: "ImageRef list"
  shapes :: "ShapeRef list"
  background :: "Background option"

datatype RuleType = Color | FontSize | FontFamily | Image | Text | SlideType | Custom

record Parameters =
  allowedValues :: "string list option"
  minValue :: "rat option"
  maxValue :: "rat option"
  forbidden :: "string list option"
  slideTypes :: "string list option"
  pattern :: "string option"

record DesignRule =
  rule_id :: string
  rule_description :: string
  rule_type :: RuleType
  parameters :: Parameters

datatype Severity = Error | Warning

record Violation =
  slide :: nat
  rule :: DesignRule
  description :: string
  elements :: "string list"
  severity :: Severity

text \<open>
  What the XML parser returns: a tree of strings, numbers, booleans, arrays and objects
  (an object is the list of its keys with their values, in key order; keys are distinct).
  The parser yields no \<^verbatim>\<open>null\<close>.
\<close>

datatype XmlNode =
    NStr string
  | NNum rat
  | NBool bool
  | NArr "XmlNode list"
  | NObj "(string \<times> XmlNode) list"

text \<open>
  The theme's lists are declared \<^verbatim>\<open>string[]\<close>, and the extractor pushes onto them
  whatever truthy value the tree holds at the place it reads.
\<close>

record Theme =
  colors :: "XmlNode list"
  fonts :: "XmlNode list"

record ParsedPresentation =
  slides :: "SlideContent list"
  theme :: "Theme option"

abbreviation no_parameters :: Parameters where
  "no_parameters \<equiv> \<lparr>allowedValues = None, minValue = None, maxValue = None,
     forbidden = None, slideTypes = None, pattern = None\<rparr>"

text \<open>\<^verbatim>\<open>xs || []\<close> on an optional array: an array, even an empty one, is truthy.\<close>

fun or_empty :: "'a list option \<Rightarrow> 'a list" where
  "or_empty None = []"
| "or_empty (Some xs) = xs"

section \<open>The validation engine (rule-validator)\<close>

subsection \<open>Color rules\<close>

definition color_message :: "string \<Rightarrow> string list \<Rightarrow> string" where
  "color_message c allowed =
     ''Text color not in allowed list (found '' @ c @ '', only '' @ join '', '' allowed
       @ '' are allowed)''"

definition color_element :: "TextRun \<Rightarrow> string \<Rightarrow> string" where
  "color_element t c =
     ''Text '' @ [CHR 0x22] @ take 50 (content t) @ ''...'' @ [CHR 0x22] @ '' with color '' @ c"

text \<open>The body of the \<^verbatim>\<open>forEach\<close> of \<^verbatim>\<open>validateColorRule\<close>: the violations one run adds.\<close>

definition validateColorRule_text ::
  "SlideContent \<Rightarrow> DesignRule \<Rightarrow> string list \<Rightarrow> TextRun \<Rightarrow> Violation list" where
  "validateColorRule_text s r allowedColors t =
     (case color t of
        None \<Rightarrow> []
      | Some c \<Rightarrow>
          if c = [] then []
          else if list_ex (\<lambda>allowed. str_includes (toLowerCase c) (toLowerCase allowed)) allowedColors
          then []
          else [\<lparr>slide = slideNumber s, rule = r,
                 description = color_message c allowedColors,
                 elements = [color_element t c], severity = Error\<rparr>])"

definition validateColorRule :: "SlideContent \<Rightarrow> DesignRule \<Rightarrow> Violation list" where
  "validateColorRule s r =
     (let allowedColors = or_empty (allowedValues (parameters r))
      in if length allowedColors = 0 then []
         else concat (map (validateColorRule_text s r allowedColors) (texts s)))"

subsection \<open>Font-size rules\<close>

definition min_message :: "rat \<Rightarrow> rat \<Rightarrow> string" where
  "min_message f m =
     ''Font size is below minimum requirement (found '' @ number_to_string f
       @ ''pt, minimum is '' @ number_to_string m @ ''pt)''"

definition max_message :: "rat \<Rightarrow> rat \<Rightarrow> string" where
  "max_message f m =
     ''Font size exceeds maximum requirement (found '' @ number_to_string f
       @ ''pt, maximum is '' @ number_to_string m @ ''pt)''"

definition fontSize_element :: "TextRun \<Rightarrow> rat \<Rightarrow> string" where
  "fontSize_element t f =
     ''Text '' @ [CHR 0x22] @ take 30 (content t) @ ''...'' @ [CHR 0x22] @ '': ''
       @ number_to_string f @ ''pt''"

text \<open>
  The minimum check of one run: the pair \<^verbatim>\<open>(violationFound, violationMessage)\<close> after
  the first \<^verbatim>\<open>if\<close>, starting from \<^verbatim>\<open>(false, '')\<close>.
\<close>

definition check_min :: "rat option \<Rightarrow> rat \<Rightarrow> bool \<times> string" where
  "check_min minSize f =
     (case minSize of
        Some m \<Rightarrow> if m \<noteq> 0 \<and> f < m then (True, min_message f m) else (False, [])
      | None \<Rightarrow> (False, []))"

text \<open>The maximum check: it runs second and assigns both variables again when it fires.\<close>

definition check_max :: "rat option \<Rightarrow> rat \<Rightarrow> bool \<times> string \<Rightarrow> bool \<times> string" where
  "check_max maxSize f st =
     (case maxSize of
        Some m \<Rightarrow> if m \<noteq> 0 \<and> f > m then (True, max_message f m) else st
      | None \<Rightarrow> st)"

text \<open>The body of the \<^verbatim>\<open>forEach\<close> of \<^verbatim>\<open>validateFontSizeRule\<close>.\<close>

definition validateFontSizeRule_text ::
  "SlideContent \<Rightarrow> DesignRule \<Rightarrow> TextRun \<Rightarrow> Violation list" where
  "validateFontSizeRule_text s r t =
     (case fontSize t of
        None \<Rightarrow> []
      | Some f \<Rightarrow>
          if f = 0 then []
          else (let st = check_max (maxValue (parameters r)) f
                           (check_min (minValue (parameters r)) f)
                in if fst st
                   then [\<lparr>slide = slideNumber s, rule = r, description = snd st,
                          elements = [fontSize_element t f], severity = Error\<rparr>]
                   else []))"

definition validateFontSizeRule :: "SlideContent \<Rightarrow> DesignRule \<Rightarrow> Violation list" where
  "validateFontSizeRule s r = concat (map (validateFontSizeRule_text s r) (texts s))"

subsection \<open>Font-family rules\<close>

definition fontFamily_message :: "string \<Rightarrow> string list \<Rightarrow> string" where
  "fontFamily_message f allowed =
     ''Font family not in allowed list (found '' @ f @ '', only '' @ join '', '' allowed
       @ '' are allowed)''"

definition validateFontFamilyRule_text ::
  "SlideContent \<Rightarrow> DesignRule \<Rightarrow> string list \<Rightarrow> TextRun \<Rightarrow> Violation list" where
  "validateFontFamilyRule_text s r allowedFonts t =
     (case fontFamily t of
        None \<Rightarrow> []
      | Some f \<Rightarrow>
          if f = [] then []
          else if list_ex (\<lambda>allowed. str_includes (toLowerCase f) (toLowerCase allowed)) allowedFonts
          then []
          else [\<lparr>slide = slideNumber s, rule = r,
                 description = fontFamily_message f allowedFonts,
                 elements = [''Text with font '' @ f], severity = Error\<rparr>])"

definition validateFontFamilyRule :: "SlideContent \<Rightarrow> DesignRule \<Rightarrow> Violation list" where
  "validateFontFamilyRule s r =
     (let allowedFonts = or_empty (allowedValues (parameters r))
      in if length allowedFonts = 0 then []
         else concat (map (validateFontFamilyRule_text s r allowedFonts) (texts s)))"

subsection \<open>Image rules\<close>

definition image_message :: "DesignRule \<Rightarrow> string" where
  "image_message r =
     ''Slide contains images, which violates the '' @ [CHR 0x27] @ rule_description r
       @ [CHR 0x27] @ '' rule''"

definition validateImageRule :: "SlideContent \<Rightarrow> DesignRule \<Rightarrow> Violation list" where
  "validateImageRule s r =
     (let forbidden = or_empty (forbidden (parameters r));
          slideTypes = or_empty (slideTypes (parameters r))
      in if ''all'' \<in> set forbidden \<or> ''images'' \<in> set forbidden
         then (let isTitleSlide = (slideNumber s = 1 \<or> ''title'' \<in> set slideTypes);
                   shouldApplyRule = (length slideTypes = 0 \<or> ''all'' \<in> set slideTypes
                                      \<or> (isTitleSlide \<and> ''title'' \<in> set slideTypes))
               in if shouldApplyRule \<and> length (images s) > 0
                  then [\<lparr>slide = slideNumber s, rule = r, description = image_message r,
                         elements = map (\<lambda>img. ''Image: '' @ name img) (images s),
                         severity = Error\<rparr>]
                  else [])
         else [])"

subsection \<open>Text and custom rules\<close>

definition validateTextRule :: "SlideContent \<Rightarrow> DesignRule \<Rightarrow> Violation list" where
  "validateTextRule s r =
     (if length (texts s) = 0 \<and> str_includes (rule_description r) ''required''
      then [\<lparr>slide = slideNumber s, rule = r,
             description = ''Slide has no text content but text is required'',
             elements = [''No text found on slide''], severity = Warning\<rparr>]
      else [])"

definition validateCustomRule :: "SlideContent \<Rightarrow> DesignRule \<Rightarrow> Violation list" where
  "validateCustomRule s r = []"

subsection \<open>Dispatch\<close>

text \<open>The \<^verbatim>\<open>switch\<close> has no case for \<^verbatim>\<open>'slide-type'\<close>: such a rule adds nothing.\<close>

fun validateSlideAgainstRule_type ::
  "RuleType \<Rightarrow> SlideContent \<Rightarrow> DesignRule \<Rightarrow> Violation list" where
  "validateSlideAgainstRule_type Color s r = validateColorRule s r"
| "validateSlideAgainstRule_type FontSize s r = validateFontSizeRule s r"
| "validateSlideAgainstRule_type FontFamily s r = validateFontFamilyRule s r"
| "validateSlideAgainstRule_type Image s r = validateImageRule s r"
| "validateSlideAgainstRule_type Text s r = validateTextRule s r"
| "validateSlideAgainstRule_type Custom s r = validateCustomRule s r"
| "validateSlideAgainstRule_type SlideType s r = []"

definition validateSlideAgainstRule :: "SlideContent \<Rightarrow> DesignRule \<Rightarrow> Violation list" where
  "validateSlideAgainstRule s r = validateSlideAgainstRule_type (rule_type r) s r"

definition validatePresentation :: "ParsedPresentation \<Rightarrow> DesignRule list \<Rightarrow> Violation list" where
  "validatePresentation presentation rules =
     concat (map (\<lambda>r. concat (map (\<lambda>s. validateSlideAgainstRule s r) (slides presentation))) rules)"

section \<open>The rule compiler (rules-parser)\<close>

subsection \<open>The expressions of the program\<close>

text \<open>\<^verbatim>\<open>/^[-*]\s*/\<close>, tried at the start of the text only.\<close>

definition rx_bullet :: rx where
  "rx_bullet = seqs [One (AnyOf ''-*''), Many Space]"

text \<open>\<^verbatim>\<open>/allowed?:\s*([^.]+)/i\<close>\<close>

definition rx_allowed :: rx where
  "rx_allowed = seqs [LitI ''allowe'', Opt (LitI ''d''), Lit '':'', Many Space,
     Grp (Many1 (NoneOf ''.''))]"

text \<open>\<^verbatim>\<open>/only\s+([^.]+?)(?:\s+are?\s+allowed|$)/i\<close>\<close>

definition rx_only :: rx where
  "rx_only = seqs [LitI ''only'', Many1 Space, Grp (Lazy1 (NoneOf ''.'')),
     Alt (seqs [Many1 Space, LitI ''ar'', Opt (LitI ''e''), Many1 Space, LitI ''allowed'']) Eol]"

text \<open>\<^verbatim>\<open>/[,&]|\s+and\s+/\<close>\<close>

definition rx_separator :: rx where
  "rx_separator = Alt (One (AnyOf '',&'')) (seqs [Many1 Space, Lit ''and'', Many1 Space])"

text \<open>\<^verbatim>\<open>/min(?:imum)?\s*(?:is\s*|:\s*)?(\d+)/i\<close>\<close>

definition rx_min :: rx where
  "rx_min = seqs [LitI ''min'', Opt (LitI ''imum''), Many Space,
     Opt (Alt (seqs [LitI ''is'', Many Space]) (seqs [Lit '':'', Many Space])),
     Grp (Many1 Digit)]"

text \<open>\<^verbatim>\<open>/at\s+least\s+(\d+)/i\<close>\<close>

definition rx_at_least :: rx where
  "rx_at_least = seqs [LitI ''at'', Many1 Space, LitI ''least'', Many1 Space, Grp (Many1 Digit)]"

text \<open>\<^verbatim>\<open>/(\d+)\s*(?:pt|px|points?)\s*or\s*higher/i\<close>\<close>

definition rx_or_higher :: rx where
  "rx_or_higher = seqs [Grp (Many1 Digit), Many Space,
     Alt (LitI ''pt'') (Alt (LitI ''px'') (seqs [LitI ''point'', Opt (LitI ''s'')])),
     Many Space, LitI ''or'', Many Space, LitI ''higher'']"

text \<open>\<^verbatim>\<open>/max(?:imum)?\s*(?:is\s*|:\s*)?(\d+)/i\<close>\<close>

definition rx_max :: rx where
  "rx_max = seqs [LitI ''max'', Opt (LitI ''imum''), Many Space,
     Opt (Alt (seqs [LitI ''is'', Many Space]) (seqs [Lit '':'', Many Space])),
     Grp (Many1 Digit)]"

text \<open>\<^verbatim>\<open>/no\s+more\s+than\s+(\d+)/i\<close>\<close>

definition rx_no_more_than :: rx where
  "rx_no_more_than = seqs [LitI ''no'', Many1 Space, LitI ''more'', Many1 Space, LitI ''than'',
     Many1 Space, Grp (Many1 Digit)]"

subsection \<open>Extraction of parameters\<close>

text \<open>\<^verbatim>\<open>m[1].split(/[,&]|\s+and\s+/).map(s => s.trim()).filter(Boolean)\<close>\<close>

definition split_values :: "string \<Rightarrow> string list" where
  "split_values g = filter (\<lambda>x. x \<noteq> []) (map trim (split_rx rx_separator [] g))"

text \<open>
  Element \<^verbatim>\<open>[1]\<close> of a match, as a string: the group takes part in every match of
  these expressions; \<^verbatim>\<open>undefined\<close> would be a type error of \<^verbatim>\<open>split\<close> and
  \<^verbatim>\<open>NaN\<close> for \<^verbatim>\<open>parseInt\<close>.
\<close>

definition extractAllowedValues :: "string \<Rightarrow> string list" where
  "extractAllowedValues text =
     (case rx_match rx_allowed text of
        Some (Some g) \<Rightarrow> split_values g
      | _ \<Rightarrow>
        (case rx_match rx_only text of
           Some (Some g) \<Rightarrow> split_values g
         | _ \<Rightarrow> []))"

definition parse_number :: "string option \<Rightarrow> rat option" where
  "parse_number g = (case g of None \<Rightarrow> None | Some d \<Rightarrow> map_option of_int (parseInt d))"

definition extractMinValue :: "string \<Rightarrow> rat option" where
  "extractMinValue text =
     (case rx_match rx_min text of
        Some g \<Rightarrow> parse_number g
      | None \<Rightarrow>
        (case rx_match rx_at_least text of
           Some g \<Rightarrow> parse_number g
         | None \<Rightarrow>
           (case rx_match rx_or_higher text of
              Some g \<Rightarrow> parse_number g
            | None \<Rightarrow> None)))"

definition extractMaxValue :: "string \<Rightarrow> rat option" where
  "extractMaxValue text =
     (case rx_match rx_max text of
        Some g \<Rightarrow> parse_number g
      | None \<Rightarrow>
        (case rx_match rx_no_more_than text of
           Some g \<Rightarrow> parse_number g
         | None \<Rightarrow> None))"

definition extractSlideTypes :: "string \<Rightarrow> string list" where
  "extractSlideTypes text =
     (if str_includes text ''title slide'' then [''title''] else [])
     @ (if str_includes text ''content slide'' then [''content''] else [])
     @ (if str_includes text ''all slide'' then [''all''] else [])"

subsection \<open>Classification\<close>

text \<open>\<^verbatim>\<open>ruleText.replace(/^[-*]\s*/, '')\<close>\<close>

definition strip_bullet :: "string \<Rightarrow> string" where
  "strip_bullet s = (case rx_run rx_bullet s of [] \<Rightarrow> s | m # _ \<Rightarrow> snd m)"

definition parseRuleText :: "string \<Rightarrow> nat \<Rightarrow> DesignRule option" where
  "parseRuleText ruleText n =
     (let cleanText = trim (strip_bullet ruleText); rid = ''rule-'' @ digits n
      in if str_includes cleanText ''text color'' \<and> str_includes cleanText ''allowed''
         then Some \<lparr>rule_id = rid, rule_description = cleanText, rule_type = Color,
                parameters = no_parameters\<lparr>allowedValues := Some (extractAllowedValues cleanText)\<rparr>\<rparr>
         else if str_includes cleanText ''font size''
                 \<or> (str_includes cleanText ''title'' \<and> str_includes cleanText ''size'')
         then Some \<lparr>rule_id = rid, rule_description = cleanText, rule_type = FontSize,
                parameters = no_parameters\<lparr>minValue := extractMinValue cleanText,
                                           maxValue := extractMaxValue cleanText\<rparr>\<rparr>
         else if (str_includes cleanText ''image'' \<or> str_includes cleanText ''picture'')
                 \<and> (str_includes cleanText ''no '' \<or> str_includes cleanText ''not allowed''
                      \<or> str_includes cleanText ''forbidden'')
         then Some \<lparr>rule_id = rid, rule_description = cleanText, rule_type = Image,
                parameters = no_parameters\<lparr>forbidden := Some [''all''],
                                           slideTypes := Some (extractSlideTypes cleanText)\<rparr>\<rparr>
         else if str_includes cleanText ''font''
                 \<and> (str_includes cleanText ''family'' \<or> str_includes cleanText ''type'')
         then Some \<lparr>rule_id = rid, rule_description = cleanText, rule_type = FontFamily,
                parameters = no_parameters\<lparr>allowedValues := Some (extractAllowedValues cleanText)\<rparr>\<rparr>
         else if str_includes cleanText ''text'' \<and> \<not> str_includes cleanText ''color''
                 \<and> \<not> str_includes cleanText ''size''
         then Some \<lparr>rule_id = rid, rule_description = cleanText, rule_type = Text,
                parameters = no_parameters\<rparr>
         else if length cleanText > 0
         then Some \<lparr>rule_id = rid, rule_description = cleanText, rule_type = Custom,
                parameters = no_parameters\<rparr>
         else None)"

subsection \<open>Compilation of a rule text\<close>

text \<open>
  The tokens of the markdown lexer the program reads: a list with the texts of its items,
  a paragraph with its text, anything else.
\<close>

datatype Token = ListToken "string list" | ParagraphToken string | OtherToken

text \<open>
  \<^verbatim>\<open>parseRuleText(ruleText, ++ruleCounter)\<close> and the \<^verbatim>\<open>push\<close> of its result: the state
  is the rules so far and the counter.
\<close>

definition add_rule :: "string \<Rightarrow> DesignRule list \<times> nat \<Rightarrow> DesignRule list \<times> nat" where
  "add_rule ruleText st =
     (let n = snd st + 1
      in case parseRuleText ruleText n of
           Some r \<Rightarrow> (fst st @ [r], n)
         | None \<Rightarrow> (fst st, n))"

fun compile_token :: "DesignRule list \<times> nat \<Rightarrow> Token \<Rightarrow> DesignRule list \<times> nat" where
  "compile_token st (ListToken items) =
     foldl (\<lambda>st item. add_rule (trim (toLowerCase item)) st) st items"
| "compile_token st (ParagraphToken text) =
     foldl (\<lambda>st line. let ruleText = trim (toLowerCase line)
                       in if length ruleText > 0 then add_rule ruleText st else st)
       st (split_char CHR 0x0A [] text)"
| "compile_token st OtherToken = st"

text \<open>The markdown lexer is a library: it is a parameter.\<close>

definition parseMarkdownRules :: "(string \<Rightarrow> Token list) \<Rightarrow> string \<Rightarrow> DesignRule list" where
  "parseMarkdownRules lexer markdownText = fst (foldl compile_token ([], 0) (lexer markdownText))"

section \<open>The package extractor (pptx-parser)\<close>

text \<open>
  The repository holds two variants of the extractor, on two XML libraries. Their
  \<^verbatim>\<open>parsePptxFile\<close> is the same text. Modelled here is the variant that reads the
  formatting of the runs; it never fills \<^verbatim>\<open>images\<close> and \<^verbatim>\<open>shapes\<close>. In the other
  one \<^verbatim>\<open>parseSlideXml\<close> rejects when the library reports a parse error, which the
  caller meets in the same \<^verbatim>\<open>try\<close> block.
\<close>

subsection \<open>Reading the tree\<close>

text \<open>
  Truthiness of a value read from the tree (\<^const>\<open>None\<close> is \<^verbatim>\<open>undefined\<close>): the empty
  string, zero and \<^verbatim>\<open>false\<close> are falsy, every array and object is truthy.
\<close>

fun truthy :: "XmlNode option \<Rightarrow> bool" where
  "truthy None = False"
| "truthy (Some (NStr s)) = (s \<noteq> [])"
| "truthy (Some (NNum q)) = (q \<noteq> 0)"
| "truthy (Some (NBool b)) = b"
| "truthy (Some (NArr xs)) = True"
| "truthy (Some (NObj kvs)) = True"

text \<open>
  \<^verbatim>\<open>x?.[k]\<close> for a key \<open>k\<close> that is a tag or attribute name: the value under the key of
  an object, \<^verbatim>\<open>undefined\<close> on \<^verbatim>\<open>undefined\<close> and on every other value (no string,
  number or array has a property of such a name). The same function models \<^verbatim>\<open>x[k]\<close>
  where \<open>x\<close> comes from the tree, which holds no \<^verbatim>\<open>null\<close>.
\<close>

fun get_prop :: "XmlNode option \<Rightarrow> string \<Rightarrow> XmlNode option" where
  "get_prop (Some (NObj kvs)) k = map_of kvs k"
| "get_prop _ k = None"

text \<open>\<^verbatim>\<open>x?.[0]\<close>: the first element of an array, the first character of a string.\<close>

fun index0 :: "XmlNode option \<Rightarrow> XmlNode option" where
  "index0 (Some (NArr (x # xs))) = Some x"
| "index0 (Some (NStr (c # cs))) = Some (NStr [c])"
| "index0 (Some (NObj kvs)) = map_of kvs ''0''"
| "index0 _ = None"

text \<open>
  \<^verbatim>\<open>Object.values(x)\<close>, and the values \<^verbatim>\<open>x[key]\<close> a \<^verbatim>\<open>for (key in x)\<close> loop visits.
\<close>

fun own_values :: "XmlNode \<Rightarrow> XmlNode list" where
  "own_values (NObj kvs) = map snd kvs"
| "own_values (NArr xs) = xs"
| "own_values (NStr s) = map (\<lambda>c. NStr [c]) s"
| "own_values (NNum q) = []"
| "own_values (NBool b) = []"

text \<open>
  An attribute's value as a string. The parser, as the program configures it, gives
  every attribute a string value; any other value under an attribute key is read as
  absent.
\<close>

fun as_string :: "XmlNode option \<Rightarrow> string option" where
  "as_string (Some (NStr s)) = Some s"
| "as_string _ = None"

fun findElementsRecursive :: "XmlNode \<Rightarrow> string \<Rightarrow> XmlNode list" where
  "findElementsRecursive (NArr xs) tagName = concat (map (\<lambda>x. findElementsRecursive x tagName) xs)"
| "findElementsRecursive (NObj kvs) tagName =
     concat (map (\<lambda>kv. if fst kv = tagName
                         then (case snd kv of NArr ys \<Rightarrow> ys | v \<Rightarrow> [v])
                         else findElementsRecursive (snd kv) tagName) kvs)"
| "findElementsRecursive (NStr s) tagName = []"
| "findElementsRecursive (NNum q) tagName = []"
| "findElementsRecursive (NBool b) tagName = []"

subsection \<open>Run formatting\<close>

definition extractFontSize :: "XmlNode option \<Rightarrow> rat option" where
  "extractFontSize rPr =
     (let rawSize = get_prop rPr ''@_sz''
      in if truthy rawSize
         then (case as_string rawSize of
                 Some raw \<Rightarrow> map_option (\<lambda>n. of_int n / 100) (parseInt raw)
               | None \<Rightarrow> None)
         else None)"

definition extractFontFamily :: "XmlNode option \<Rightarrow> string option" where
  "extractFontFamily rPr = as_string (get_prop (get_prop rPr ''a:latin'') ''@_typeface'')"

definition extractColor :: "XmlNode option \<Rightarrow> string option" where
  "extractColor rPr = as_string (get_prop (get_prop (get_prop rPr ''a:solidFill'') ''a:srgbClr'') ''@_val'')"

subsection \<open>One slide part\<close>

text \<open>What the program throws: the exceptions of the libraries, and its own error.\<close>

datatype exn = XmlParserError | ZipError | PptxError string

text \<open>An XML parser: \<^const>\<open>None\<close> when \<^verbatim>\<open>parser.parse\<close> throws.\<close>

type_synonym XMLParser = "string \<Rightarrow> XmlNode option"

text \<open>The text run of one \<^verbatim>\<open>a:r\<close>, if its \<^verbatim>\<open>a:t\<close> is a string.\<close>

definition run_text :: "XmlNode \<Rightarrow> TextRun list" where
  "run_text run =
     (let text = get_prop (Some run) ''a:t''; props = get_prop (Some run) ''a:rPr''
      in case text of
           Some (NStr t) \<Rightarrow>
             [\<lparr>content = t, fontSize = extractFontSize props,
               fontFamily = extractFontFamily props, color = extractColor props,
               isBold = Some (get_prop props ''@_b'' = Some (NStr ''1'')),
               isItalic = Some (get_prop props ''@_i'' = Some (NStr ''1''))\<rparr>]
         | _ \<Rightarrow> [])"

definition paragraph_runs :: "XmlNode \<Rightarrow> XmlNode list" where
  "paragraph_runs p =
     (let r = get_prop (Some p) ''a:r''
      in if truthy r then (case r of Some (NArr rs) \<Rightarrow> rs | Some x \<Rightarrow> [x] | None \<Rightarrow> []) else [])"

definition shape_texts :: "XmlNode \<Rightarrow> TextRun list" where
  "shape_texts shape =
     (let paragraphs = get_prop (get_prop (Some shape) ''p:txBody'') ''a:p''
      in if \<not> truthy paragraphs then []
         else (let paragraphArray =
                     (case paragraphs of Some (NArr ps) \<Rightarrow> ps | Some p \<Rightarrow> [p] | None \<Rightarrow> [])
               in concat (map (\<lambda>p. concat (map run_text (paragraph_runs p))) paragraphArray)))"

definition parseSlideXml :: "XMLParser \<Rightarrow> string \<Rightarrow> nat \<Rightarrow> exn + SlideContent" where
  "parseSlideXml parser xmlContent n =
     (case parser xmlContent of
        None \<Rightarrow> Inl XmlParserError
      | Some result \<Rightarrow>
          Inr \<lparr>slideNumber = n,
               texts = concat (map shape_texts (findElementsRecursive result ''p:sp'')),
               images = [], shapes = [], background = None\<rparr>)"

subsection \<open>The theme part\<close>

definition theme_color :: "XmlNode \<Rightarrow> XmlNode list" where
  "theme_color entry =
     (let val = get_prop (get_prop (index0 (get_prop (index0 (Some entry)) ''a:srgbClr'')) ''$'') ''val''
      in case val of Some v \<Rightarrow> if truthy val then [v] else [] | None \<Rightarrow> [])"

definition extractFonts :: "XmlNode option \<Rightarrow> XmlNode list" where
  "extractFonts fontBlock =
     (let block_values = (case fontBlock of Some b \<Rightarrow> if truthy fontBlock then own_values b else []
                          | None \<Rightarrow> [])
      in concat (map (\<lambda>fontArr.
           case fontArr of
             NArr fs \<Rightarrow>
               concat (map (\<lambda>font.
                 (let face = get_prop (get_prop (Some font) ''$'') ''typeface''
                  in case face of Some v \<Rightarrow> if truthy face then [v] else [] | None \<Rightarrow> [])) fs)
           | _ \<Rightarrow> []) block_values))"

text \<open>
  The body of \<^verbatim>\<open>parseThemeXml\<close> after the parse. Its \<^verbatim>\<open>try\<close> block reads the tree with
  optional chaining only and cannot throw on a tree without \<^verbatim>\<open>null\<close>.
\<close>

definition theme_of :: "XmlNode \<Rightarrow> Theme" where
  "theme_of result =
     (let elems = index0 (get_prop (get_prop (Some result) ''a:theme'') ''a:themeElements'');
          clrScheme = index0 (get_prop elems ''a:clrScheme'');
          fontScheme = index0 (get_prop elems ''a:fontScheme'')
      in \<lparr>colors = (case clrScheme of
                       Some c \<Rightarrow> if truthy clrScheme then concat (map theme_color (own_values c)) else []
                     | None \<Rightarrow> []),
           fonts = (if truthy fontScheme
                    then extractFonts (index0 (get_prop fontScheme ''a:majorFont''))
                         @ extractFonts (index0 (get_prop fontScheme ''a:minorFont''))
                    else [])\<rparr>)"

definition parseThemeXml :: "XMLParser \<Rightarrow> string \<Rightarrow> exn + Theme" where
  "parseThemeXml parser xmlContent =
     (case parser xmlContent of
        None \<Rightarrow> Inl XmlParserError
      | Some result \<Rightarrow> Inr (theme_of result))"

subsection \<open>The package\<close>

text \<open>
  A file, as the zip library sees it: not a zip container (\<^verbatim>\<open>loadAsync\<close> throws), or the
  entries of the container in the order of \<^verbatim>\<open>Object.keys(zip.files)\<close> (the names are
  distinct). An entry is a folder, a file with its content as a string, or a file whose
  content cannot be read (\<^verbatim>\<open>async("string")\<close> throws).
\<close>

datatype ZipEntry = Folder | Part string | Unreadable

datatype File = NotAZip | Zip "(string \<times> ZipEntry) list"

text \<open>\<^verbatim>\<open>await zip.file(name)?.async("string")\<close>: \<^verbatim>\<open>zip.file\<close> is null for a folder.\<close>

definition read_string :: "(string \<times> ZipEntry) list \<Rightarrow> string \<Rightarrow> exn + string option" where
  "read_string files n =
     (case map_of files n of
        None \<Rightarrow> Inr None
      | Some Folder \<Rightarrow> Inr None
      | Some (Part c) \<Rightarrow> Inr (Some c)
      | Some Unreadable \<Rightarrow> Inl ZipError)"

text \<open>
  \<^verbatim>\<open>/slide(\d+)\.xml/\<close>, and the sort key of a part name:
  \<^verbatim>\<open>parseInt(a.match(/slide(\d+)\.xml/)?.[1] || "0")\<close>, as an exact integer (an index
  too long for a double to hold exactly is outside the model).
\<close>

definition rx_slide :: rx where
  "rx_slide = seqs [Lit ''slide'', Grp (Many1 Digit), Lit ''.xml'']"

definition slide_index :: "string \<Rightarrow> int" where
  "slide_index a =
     (let g = (case rx_match rx_slide a of Some (Some d) \<Rightarrow> if d = [] then ''0'' else d | _ \<Rightarrow> ''0'')
      in case parseInt g of Some n \<Rightarrow> n | None \<Rightarrow> 0)"

text \<open>
  The slide parts, sorted. The comparator orders by the key, and the sort of the host
  language is stable, as \<^const>\<open>sort_key\<close> is.
\<close>

definition slideFiles :: "(string \<times> ZipEntry) list \<Rightarrow> string list" where
  "slideFiles files =
     sort_key slide_index
       (filter (\<lambda>fileName. startsWith fileName ''ppt/slides/slide'' \<and> endsWith fileName ''.xml'')
          (map fst files))"

text \<open>
  The loop over the slide parts, from index \<open>i\<close>: a part whose content is empty (or
  absent) is passed over; any exception ends the loop.
\<close>

fun parse_slides ::
  "XMLParser \<Rightarrow> (string \<times> ZipEntry) list \<Rightarrow> nat \<Rightarrow> string list \<Rightarrow> exn + SlideContent list" where
  "parse_slides parser files i [] = Inr []"
| "parse_slides parser files i (slideFile # rest) =
     (case read_string files slideFile of
        Inl e \<Rightarrow> Inl e
      | Inr slideContent \<Rightarrow>
          (case slideContent of
             None \<Rightarrow> parse_slides parser files (i + 1) rest
           | Some c \<Rightarrow>
               if c = [] then parse_slides parser files (i + 1) rest
               else (case parseSlideXml parser c (i + 1) of
                       Inl e \<Rightarrow> Inl e
                     | Inr parsed \<Rightarrow>
                         (case parse_slides parser files (i + 1) rest of
                            Inl e \<Rightarrow> Inl e
                          | Inr later \<Rightarrow> Inr (parsed # later)))))"

text \<open>The theme, if the container has the theme part.\<close>

definition parse_theme :: "XMLParser \<Rightarrow> (string \<times> ZipEntry) list \<Rightarrow> exn + Theme option" where
  "parse_theme parser files =
     (case map_of files ''ppt/theme/theme1.xml'' of
        None \<Rightarrow> Inr None
      | Some Folder \<Rightarrow> Inr None
      | Some Unreadable \<Rightarrow> Inl ZipError
      | Some (Part themeContent) \<Rightarrow>
          (case parseThemeXml parser themeContent of
             Inl e \<Rightarrow> Inl e
           | Inr t \<Rightarrow> Inr (Some t)))"

definition failure_message :: string where
  "failure_message = ''Failed to parse PowerPoint file. Please ensure it is a valid .pptx file.''"

text \<open>
  \<^verbatim>\<open>parsePptxFile\<close>: the body of the \<^verbatim>\<open>try\<close>, then the \<^verbatim>\<open>catch\<close>, which replaces
  every exception by the program's own error. The slide parts are parsed with the
  parser that keeps attributes, the theme with the default one.
\<close>

definition parsePptxFile_try ::
  "XMLParser \<Rightarrow> XMLParser \<Rightarrow> File \<Rightarrow> exn + ParsedPresentation" where
  "parsePptxFile_try slideParser themeParser file =
     (case file of
        NotAZip \<Rightarrow> Inl ZipError
      | Zip files \<Rightarrow>
          (case parse_slides slideParser files 0 (slideFiles files) of
             Inl e \<Rightarrow> Inl e
           | Inr ss \<Rightarrow>
               (case parse_theme themeParser files of
                  Inl e \<Rightarrow> Inl e
                | Inr t \<Rightarrow> Inr \<lparr>slides = ss, theme = t\<rparr>)))"

definition parsePptxFile ::
  "XMLParser \<Rightarrow> XMLParser \<Rightarrow> File \<Rightarrow> exn + ParsedPresentation" where
  "parsePptxFile slideParser themeParser file =
     (case parsePptxFile_try slideParser themeParser file of
        Inl e \<Rightarrow> Inl (PptxError failure_message)
      | Inr presentation \<Rightarrow> Inr presentation)"

text \<open>A slide part that the loop parses: a readable file with non-empty content.\<close>

fun nonempty_part :: "ZipEntry option \<Rightarrow> bool" where
  "nonempty_part (Some (Part c)) = (c \<noteq> [])"
| "nonempty_part _ = False"


section \<open>Example inputs\<close>

abbreviation plain_run :: "string \<Rightarrow> rat option \<Rightarrow> TextRun" where
  "plain_run c sz \<equiv> \<lparr>content = c, fontSize = sz, fontFamily = None, color = None,
     isBold = Some False, isItalic = Some False\<rparr>"

abbreviation image_ref :: "string \<Rightarrow> ImageRef" where
  "image_ref n \<equiv> \<lparr>name = n, image_type = ''embedded''\<rparr>"

abbreviation slide_of :: "nat \<Rightarrow> TextRun list \<Rightarrow> ImageRef list \<Rightarrow> SlideContent" where
  "slide_of n ts imgs \<equiv> \<lparr>slideNumber = n, texts = ts, images = imgs, shapes = [],
     background = None\<rparr>"

abbreviation rule_of :: "RuleType \<Rightarrow> string \<Rightarrow> Parameters \<Rightarrow> DesignRule" where
  "rule_of ty d ps \<equiv> \<lparr>rule_id = ''rule-1'', rule_description = d, rule_type = ty,
     parameters = ps\<rparr>"

abbreviation title_image_rule :: DesignRule where
  "title_image_rule \<equiv> rule_of Image ''no images allowed on title slides''
     (no_parameters\<lparr>forbidden := Some [''all''], slideTypes := Some [''title'']\<rparr>)"

text \<open>
  A parser for the examples: it reads the empty slide element and the empty theme
  element, and throws on every other text.
\<close>

abbreviation demo_parser :: XMLParser where
  "demo_parser \<equiv>
     (\<lambda>xml. if xml = ''<p:sld/>'' then Some (NObj [(''p:sld'', NStr '''')])
            else if xml = ''<a:theme/>'' then Some (NObj [(''a:theme'', NStr '''')])
            else None)"

text \<open>The tree of a slide with one shape, whose one paragraph has one run.\<close>

abbreviation one_run_slide :: XmlNode where
  "one_run_slide \<equiv>
     NObj [(''p:sld'', NObj [(''p:cSld'', NObj [(''p:spTree'', NObj [(''p:sp'',
       NObj [(''p:txBody'', NObj [(''a:p'', NObj [(''a:r'',
         NObj [(''a:rPr'', NObj [(''a:solidFill'', NObj [(''a:srgbClr'', NObj [(''@_val'', NStr ''FF0000'')])]),
                                 (''a:latin'', NObj [(''@_typeface'', NStr ''Arial'')]),
                                 (''@_sz'', NStr ''2400''), (''@_b'', NStr ''1'')]),
               (''a:t'', NStr ''Agenda'')])])])])])])])]"

section \<open>Properties of the validation engine\<close>

subsection \<open>Auxiliary facts\<close>

lemma number_to_string_12: "number_to_string 12 = ''12''"
  by code_simp

lemma number_to_string_24: "number_to_string 24 = ''24''"
  by code_simp

lemma number_to_string_36: "number_to_string 36 = ''36''"
  by code_simp

lemma min_message_neq_max_message: "min_message f m \<noteq> max_message f' m'"
  by (simp add: min_message_def max_message_def)

lemma check_min_zero: "check_min (Some 0) f = check_min None f"
  by (simp add: check_min_def)

lemma check_max_zero: "check_max (Some 0) f st = check_max None f st"
  by (simp add: check_max_def)

lemma check_min_cases:
  "check_min mn f = (False, []) \<or> (\<exists>m. check_min mn f = (True, min_message f m))"
  by (auto simp add: check_min_def split: option.splits)

lemma check_max_cases:
  "check_max mx f st = st \<or> (\<exists>m. check_max mx f st = (True, max_message f m))"
  by (auto simp add: check_max_def split: option.splits)

lemma severity_color: "v \<in> set (validateColorRule s r) \<Longrightarrow> severity v = Error"
  by (auto simp: validateColorRule_def validateColorRule_text_def Let_def
      split: if_splits option.splits)

lemma severity_fontFamily: "v \<in> set (validateFontFamilyRule s r) \<Longrightarrow> severity v = Error"
  by (auto simp: validateFontFamilyRule_def validateFontFamilyRule_text_def Let_def
      split: if_splits option.splits)

lemma severity_fontSize: "v \<in> set (validateFontSizeRule s r) \<Longrightarrow> severity v = Error"
  by (auto simp: validateFontSizeRule_def validateFontSizeRule_text_def Let_def
      split: if_splits option.splits)

lemma severity_image: "v \<in> set (validateImageRule s r) \<Longrightarrow> severity v = Error"
  by (auto simp: validateImageRule_def Let_def split: if_splits)

lemma severity_other_checkers:
  "rule_type r \<noteq> Text \<Longrightarrow> v \<in> set (validateSlideAgainstRule s r) \<Longrightarrow> severity v = Error"
  by (cases "rule_type r")
     (auto simp: validateSlideAgainstRule_def validateCustomRule_def
        dest: severity_color severity_fontSize severity_fontFamily severity_image)

subsection \<open>Image rules scoped to title slides\<close>

text \<open>
  The scope test of \<^const>\<open>validateImageRule\<close> for a rule with
  \<^verbatim>\<open>forbidden = ["all"]\<close> and \<^verbatim>\<open>slideTypes = ["title"]\<close>: the flag
  \<^verbatim>\<open>isTitleSlide\<close> is true on every slide, because its second disjunct looks at the
  rule and not at the slide. The rule fires on every slide that has an image.
\<close>

lemma title_scoped_rule_fires_on_every_slide:
  assumes "forbidden (parameters r) = Some [''all'']" "slideTypes (parameters r) = Some [''title'']"
  shows "validateImageRule s r =
     (if length (images s) > 0
      then [\<lparr>slide = slideNumber s, rule = r, description = image_message r,
             elements = map (\<lambda>img. ''Image: '' @ name img) (images s), severity = Error\<rparr>]
      else [])"
  using assms by (simp add: validateImageRule_def)

text \<open>
  The example of the specification holds: slide 1 with two images, slide 2 with none, one
  violation, on slide 1, with both image names.
\<close>

lemma title_image_rule_example:
  "validatePresentation
     \<lparr>slides = [slide_of 1 [] [image_ref ''rId2'', image_ref ''rId3''], slide_of 2 [] []],
       theme = None\<rparr>
     [title_image_rule]
   = [\<lparr>slide = 1, rule = title_image_rule, description = image_message title_image_rule,
        elements = [''Image: rId2'', ''Image: rId3''], severity = Error\<rparr>]"
  by (simp add: validatePresentation_def validateSlideAgainstRule_def validateImageRule_def Let_def)

text \<open>
  C1. An image rule with \<^verbatim>\<open>forbidden = ["all"]\<close> and \<^verbatim>\<open>slideTypes = ["title"]\<close> is
  meant for the title slide only. On a presentation whose slide 1 has no image and whose
  slide 2 has one, the program reports a violation on slide 2: the rule is applied to a
  slide that is not slide number 1.
\<close>

theorem title_image_rule_flags_slide_2:
  "validatePresentation
     \<lparr>slides = [slide_of 1 [] [], slide_of 2 [] [image_ref ''rId2'']], theme = None\<rparr>
     [title_image_rule]
   = [\<lparr>slide = 2, rule = title_image_rule, description = image_message title_image_rule,
        elements = [''Image: rId2''], severity = Error\<rparr>]"
  by (simp add: validatePresentation_def validateSlideAgainstRule_def validateImageRule_def Let_def)

subsection \<open>Font-size rules\<close>

text \<open>
  C2, as the program has it. A run whose font size is non-zero and lies below a non-zero
  minimum and above a non-zero maximum yields exactly one violation, and its description
  is the maximum-bound message: the maximum is checked last and its message replaces the
  minimum's.
\<close>

theorem both_bounds_violated_reports_maximum:
  assumes "fontSize t = Some f" and "f \<noteq> 0"
    and "minValue (parameters r) = Some mn" and "mn \<noteq> 0"
    and "maxValue (parameters r) = Some mx" and "mx \<noteq> 0"
    and "f < mn" and "mx < f"
  shows "validateFontSizeRule_text s r t =
           [\<lparr>slide = slideNumber s, rule = r, description = max_message f mx,
             elements = [fontSize_element t f], severity = Error\<rparr>]
         \<and> validateFontSizeRule (s\<lparr>texts := [t]\<rparr>) r =
           [\<lparr>slide = slideNumber s, rule = r, description = max_message f mx,
             elements = [fontSize_element t f], severity = Error\<rparr>]"
  using assms
  by (simp add: validateFontSizeRule_def validateFontSizeRule_text_def check_min_def check_max_def)

theorem both_bounds_violated_reports_maximum_witness:
  "validateFontSizeRule (slide_of 1 [plain_run ''Agenda'' (Some 24)] [])
     (rule_of FontSize ''font size minimum is 36, maximum is 12''
        (no_parameters\<lparr>minValue := Some 36, maxValue := Some 12\<rparr>))
   = [\<lparr>slide = 1,
        rule = rule_of FontSize ''font size minimum is 36, maximum is 12''
                 (no_parameters\<lparr>minValue := Some 36, maxValue := Some 12\<rparr>),
        description = max_message 24 12,
        elements = [fontSize_element (plain_run ''Agenda'' (Some 24)) 24],
        severity = Error\<rparr>]"
  using both_bounds_violated_reports_maximum
    [of "plain_run ''Agenda'' (Some 24)" 24
        "rule_of FontSize ''font size minimum is 36, maximum is 12''
           (no_parameters\<lparr>minValue := Some 36, maxValue := Some 12\<rparr>)"
        36 12 "slide_of 1 [] []"]
  by simp

text \<open>
  The claim as stated fails: with a minimum of 36 and a maximum of 12, a run of size 24
  violates both, and the one violation kept carries the maximum-bound message, not the
  minimum-bound one.
\<close>

theorem both_bounds_violated_counterexample:
  "map description
     (validateFontSizeRule (slide_of 1 [plain_run ''Agenda'' (Some 24)] [])
        (rule_of FontSize ''font size minimum is 36, maximum is 12''
           (no_parameters\<lparr>minValue := Some 36, maxValue := Some 12\<rparr>)))
   = [''Font size exceeds maximum requirement (found 24pt, maximum is 12pt)'']
   \<and> map description
     (validateFontSizeRule (slide_of 1 [plain_run ''Agenda'' (Some 24)] [])
        (rule_of FontSize ''font size minimum is 36, maximum is 12''
           (no_parameters\<lparr>minValue := Some 36, maxValue := Some 12\<rparr>)))
   \<noteq> [min_message 24 36]"
  by (simp add: validateFontSizeRule_def validateFontSizeRule_text_def check_min_def
        check_max_def max_message_def min_message_def number_to_string_12 number_to_string_24)

text \<open>A zero bound: what one run yields, and what the whole slide yields.\<close>

lemma text_no_min_message_when_min_zero:
  assumes "minValue (parameters r) = Some 0" and "v \<in> set (validateFontSizeRule_text s r t)"
  shows "description v \<noteq> min_message f m"
proof (cases "fontSize t")
  case None
  with assms show ?thesis by (simp add: validateFontSizeRule_text_def)
next
  case (Some g)
  from check_max_cases [of "maxValue (parameters r)" g "(False, [])"]
  show ?thesis
  proof
    assume "check_max (maxValue (parameters r)) g (False, []) = (False, [])"
    with assms Some show ?thesis
      by (simp add: validateFontSizeRule_text_def check_min_def split: if_splits)
  next
    assume "\<exists>m. check_max (maxValue (parameters r)) g (False, []) = (True, max_message g m)"
    then obtain m' where
      "check_max (maxValue (parameters r)) g (False, []) = (True, max_message g m')" ..
    with assms Some have "description v = max_message g m'"
      by (auto simp add: validateFontSizeRule_text_def check_min_def split: if_splits)
    then show ?thesis using min_message_neq_max_message [of f m g m'] by simp
  qed
qed

lemma text_no_max_message_when_max_zero:
  assumes "maxValue (parameters r) = Some 0" and "v \<in> set (validateFontSizeRule_text s r t)"
  shows "description v \<noteq> max_message f m"
proof (cases "fontSize t")
  case None
  with assms show ?thesis by (simp add: validateFontSizeRule_text_def)
next
  case (Some g)
  from check_min_cases [of "minValue (parameters r)" g]
  show ?thesis
  proof
    assume "check_min (minValue (parameters r)) g = (False, [])"
    with assms Some show ?thesis
      by (simp add: validateFontSizeRule_text_def check_max_def split: if_splits)
  next
    assume "\<exists>m. check_min (minValue (parameters r)) g = (True, min_message g m)"
    then obtain m' where "check_min (minValue (parameters r)) g = (True, min_message g m')" ..
    with assms Some have "description v = min_message g m'"
      by (auto simp add: validateFontSizeRule_text_def check_max_def split: if_splits)
    then show ?thesis using min_message_neq_max_message [of g m' f m] by simp
  qed
qed

lemma text_min_zero_as_undefined:
  assumes "minValue (parameters r) = Some 0"
  shows "map (\<lambda>v. (slide v, description v, elements v, severity v))
           (validateFontSizeRule_text s r t)
       = map (\<lambda>v. (slide v, description v, elements v, severity v))
           (validateFontSizeRule_text s (r\<lparr>parameters := (parameters r)\<lparr>minValue := None\<rparr>\<rparr>) t)"
  using assms
  by (simp add: validateFontSizeRule_text_def check_min_zero Let_def split: option.splits)

lemma text_max_zero_as_undefined:
  assumes "maxValue (parameters r) = Some 0"
  shows "map (\<lambda>v. (slide v, description v, elements v, severity v))
           (validateFontSizeRule_text s r t)
       = map (\<lambda>v. (slide v, description v, elements v, severity v))
           (validateFontSizeRule_text s (r\<lparr>parameters := (parameters r)\<lparr>maxValue := None\<rparr>\<rparr>) t)"
  using assms
  by (simp add: validateFontSizeRule_text_def check_max_zero Let_def split: option.splits)

lemma no_min_message_when_min_zero:
  assumes "minValue (parameters r) = Some 0"
  shows "list_all (\<lambda>v. \<forall>f m. description v \<noteq> min_message f m) (validateFontSizeRule s r)"
  using text_no_min_message_when_min_zero [OF assms]
  by (auto simp: list_all_iff validateFontSizeRule_def)

lemma no_max_message_when_max_zero:
  assumes "maxValue (parameters r) = Some 0"
  shows "list_all (\<lambda>v. \<forall>f m. description v \<noteq> max_message f m) (validateFontSizeRule s r)"
  using text_no_max_message_when_max_zero [OF assms]
  by (auto simp: list_all_iff validateFontSizeRule_def)

lemma min_zero_as_undefined:
  assumes "minValue (parameters r) = Some 0"
  shows "map (\<lambda>v. (slide v, description v, elements v, severity v)) (validateFontSizeRule s r)
       = map (\<lambda>v. (slide v, description v, elements v, severity v))
           (validateFontSizeRule s (r\<lparr>parameters := (parameters r)\<lparr>minValue := None\<rparr>\<rparr>))"
  using text_min_zero_as_undefined [OF assms]
  by (simp add: validateFontSizeRule_def map_concat comp_def)

lemma max_zero_as_undefined:
  assumes "maxValue (parameters r) = Some 0"
  shows "map (\<lambda>v. (slide v, description v, elements v, severity v)) (validateFontSizeRule s r)
       = map (\<lambda>v. (slide v, description v, elements v, severity v))
           (validateFontSizeRule s (r\<lparr>parameters := (parameters r)\<lparr>maxValue := None\<rparr>\<rparr>))"
  using text_max_zero_as_undefined [OF assms]
  by (simp add: validateFontSizeRule_def map_concat comp_def)

text \<open>
  C10. A font-size rule whose minimum is 0 yields no violation with the minimum-bound
  message, on any slide, and yields what the same rule without a minimum yields (the
  violations agree in slide, description, elements and severity; they carry the rule they
  come from). The same holds for a maximum of 0 and the maximum-bound message.
\<close>

theorem zero_bound_is_no_bound:
  "(minValue (parameters r) = Some 0 \<longrightarrow>
      list_all (\<lambda>v. \<forall>f m. description v \<noteq> min_message f m) (validateFontSizeRule s r)
      \<and> map (\<lambda>v. (slide v, description v, elements v, severity v)) (validateFontSizeRule s r)
        = map (\<lambda>v. (slide v, description v, elements v, severity v))
            (validateFontSizeRule s (r\<lparr>parameters := (parameters r)\<lparr>minValue := None\<rparr>\<rparr>)))
   \<and> (maxValue (parameters r) = Some 0 \<longrightarrow>
      list_all (\<lambda>v. \<forall>f m. description v \<noteq> max_message f m) (validateFontSizeRule s r)
      \<and> map (\<lambda>v. (slide v, description v, elements v, severity v)) (validateFontSizeRule s r)
        = map (\<lambda>v. (slide v, description v, elements v, severity v))
            (validateFontSizeRule s (r\<lparr>parameters := (parameters r)\<lparr>maxValue := None\<rparr>\<rparr>)))"
  using no_min_message_when_min_zero [of r s] min_zero_as_undefined [of r s]
    no_max_message_when_max_zero [of r s] max_zero_as_undefined [of r s]
  by blast

theorem zero_bound_is_no_bound_witness:
  "map (\<lambda>v. (slide v, description v, elements v, severity v))
     (validateFontSizeRule (slide_of 1 [plain_run ''Agenda'' (Some (- 5))] [])
        (rule_of FontSize ''font size minimum is 0'' (no_parameters\<lparr>minValue := Some 0\<rparr>)))
   = map (\<lambda>v. (slide v, description v, elements v, severity v))
     (validateFontSizeRule (slide_of 1 [plain_run ''Agenda'' (Some (- 5))] [])
        (rule_of FontSize ''font size minimum is 0'' no_parameters))
   \<and> map (\<lambda>v. (slide v, description v, elements v, severity v))
     (validateFontSizeRule (slide_of 1 [plain_run ''Agenda'' (Some 24)] [])
        (rule_of FontSize ''font size maximum is 0'' (no_parameters\<lparr>maxValue := Some 0\<rparr>)))
   = map (\<lambda>v. (slide v, description v, elements v, severity v))
     (validateFontSizeRule (slide_of 1 [plain_run ''Agenda'' (Some 24)] [])
        (rule_of FontSize ''font size maximum is 0'' no_parameters))"
  using zero_bound_is_no_bound
    [of "rule_of FontSize ''font size minimum is 0'' (no_parameters\<lparr>minValue := Some 0\<rparr>)"
        "slide_of 1 [plain_run ''Agenda'' (Some (- 5))] []"]
    zero_bound_is_no_bound
    [of "rule_of FontSize ''font size maximum is 0'' (no_parameters\<lparr>maxValue := Some 0\<rparr>)"
        "slide_of 1 [plain_run ''Agenda'' (Some 24)] []"]
  by simp

text \<open>
  On those inputs the checks of a defined bound would fire (\<open>-5 < 0\<close>, \<open>24 > 0\<close>); the
  program reports nothing.
\<close>

lemma zero_bound_examples:
  "validateFontSizeRule (slide_of 1 [plain_run ''Agenda'' (Some (- 5))] [])
     (rule_of FontSize ''font size minimum is 0'' (no_parameters\<lparr>minValue := Some 0\<rparr>)) = []
   \<and> validateFontSizeRule (slide_of 1 [plain_run ''Agenda'' (Some 24)] [])
     (rule_of FontSize ''font size maximum is 0'' (no_parameters\<lparr>maxValue := Some 0\<rparr>)) = []"
  by (simp add: validateFontSizeRule_def validateFontSizeRule_text_def check_min_def check_max_def)

subsection \<open>Text rules and severities\<close>

text \<open>
  C7. On a slide without text runs, a text rule whose description contains "required"
  yields exactly one violation, a warning; a text rule whose description does not contain
  it yields none. Every violation of a rule of another type is an error, and so is every
  violation of the color, font-size, font-family, image and custom checkers.
\<close>

theorem text_rule_is_the_only_warning:
  "(length (texts s) = 0 \<and> rule_type r = Text \<and> str_includes (rule_description r) ''required''
      \<longrightarrow> (\<exists>v. validateSlideAgainstRule s r = [v] \<and> severity v = Warning))
   \<and> (length (texts s) = 0 \<and> rule_type r = Text \<and> \<not> str_includes (rule_description r) ''required''
      \<longrightarrow> validateSlideAgainstRule s r = [])
   \<and> (rule_type r \<noteq> Text
      \<longrightarrow> list_all (\<lambda>v. severity v = Error) (validateSlideAgainstRule s r))
   \<and> list_all (\<lambda>v. severity v = Error)
        (validateColorRule s r @ validateFontSizeRule s r @ validateFontFamilyRule s r
           @ validateImageRule s r @ validateCustomRule s r)"
proof -
  have a: "length (texts s) = 0 \<and> rule_type r = Text \<and> str_includes (rule_description r) ''required''
      \<longrightarrow> (\<exists>v. validateSlideAgainstRule s r = [v] \<and> severity v = Warning)"
    by (simp add: validateSlideAgainstRule_def validateTextRule_def)
  have b: "length (texts s) = 0 \<and> rule_type r = Text \<and> \<not> str_includes (rule_description r) ''required''
      \<longrightarrow> validateSlideAgainstRule s r = []"
    by (simp add: validateSlideAgainstRule_def validateTextRule_def)
  have c: "rule_type r \<noteq> Text
      \<longrightarrow> list_all (\<lambda>v. severity v = Error) (validateSlideAgainstRule s r)"
    using severity_other_checkers [of r _ s] by (auto simp: list_all_iff)
  have d: "list_all (\<lambda>v. severity v = Error)
        (validateColorRule s r @ validateFontSizeRule s r @ validateFontFamilyRule s r
           @ validateImageRule s r @ validateCustomRule s r)"
    using severity_color [of _ s r] severity_fontSize [of _ s r] severity_fontFamily [of _ s r]
      severity_image [of _ s r]
    by (auto simp: list_all_iff validateCustomRule_def)
  from a b c d show ?thesis by blast
qed

theorem text_rule_is_the_only_warning_witness:
  "(\<exists>v. validateSlideAgainstRule (slide_of 3 [] [])
           (rule_of Text ''text is required on every slide'' no_parameters) = [v]
        \<and> severity v = Warning)
   \<and> validateSlideAgainstRule (slide_of 3 [] [])
       (rule_of Text ''keep the text short'' no_parameters) = []
   \<and> list_all (\<lambda>v. severity v = Error)
       (validateSlideAgainstRule (slide_of 1 [plain_run ''Agenda'' (Some 24)] [])
          (rule_of FontSize ''font size minimum is 36'' (no_parameters\<lparr>minValue := Some 36\<rparr>)))"
proof -
  have r: "str_includes ''text is required on every slide'' ''required''"
    by code_simp
  have n: "\<not> str_includes ''keep the text short'' ''required''"
    by code_simp
  from r n
    text_rule_is_the_only_warning
      [of "slide_of 3 [] []" "rule_of Text ''text is required on every slide'' no_parameters"]
    text_rule_is_the_only_warning
      [of "slide_of 3 [] []" "rule_of Text ''keep the text short'' no_parameters"]
    text_rule_is_the_only_warning
      [of "slide_of 1 [plain_run ''Agenda'' (Some 24)] []"
          "rule_of FontSize ''font size minimum is 36'' (no_parameters\<lparr>minValue := Some 36\<rparr>)"]
  show ?thesis by simp
qed

subsection \<open>Allow-list rules without allowed values\<close>

text \<open>
  C8. The validation engine is a total function to a list of violations. A color or
  font-family rule whose \<^verbatim>\<open>allowedValues\<close> is absent or the empty list yields no
  violation on any slide.
\<close>

theorem empty_allow_list_yields_nothing:
  assumes "rule_type r = Color \<or> rule_type r = FontFamily"
    and "allowedValues (parameters r) = None \<or> allowedValues (parameters r) = Some []"
  shows "validateSlideAgainstRule s r = []
         \<and> validateColorRule s r = [] \<and> validateFontFamilyRule s r = []"
  using assms
  by (auto simp add: validateSlideAgainstRule_def validateColorRule_def validateFontFamilyRule_def)

theorem empty_allow_list_yields_nothing_witness:
  "validateSlideAgainstRule
     (slide_of 1 [\<lparr>content = ''Agenda'', fontSize = None, fontFamily = Some ''Comic Sans'',
                   color = Some ''FF0000'', isBold = Some False, isItalic = Some False\<rparr>] [])
     (rule_of Color ''text colors allowed:'' (no_parameters\<lparr>allowedValues := Some []\<rparr>)) = []
   \<and> validateSlideAgainstRule
     (slide_of 1 [\<lparr>content = ''Agenda'', fontSize = None, fontFamily = Some ''Comic Sans'',
                   color = Some ''FF0000'', isBold = Some False, isItalic = Some False\<rparr>] [])
     (rule_of FontFamily ''font family'' no_parameters) = []"
  using empty_allow_list_yields_nothing
    [of "rule_of Color ''text colors allowed:'' (no_parameters\<lparr>allowedValues := Some []\<rparr>)"
        "slide_of 1 [\<lparr>content = ''Agenda'', fontSize = None, fontFamily = Some ''Comic Sans'',
                   color = Some ''FF0000'', isBold = Some False, isItalic = Some False\<rparr>] []"]
    empty_allow_list_yields_nothing
    [of "rule_of FontFamily ''font family'' no_parameters"
        "slide_of 1 [\<lparr>content = ''Agenda'', fontSize = None, fontFamily = Some ''Comic Sans'',
                   color = Some ''FF0000'', isBold = Some False, isItalic = Some False\<rparr>] []"]
  by simp

text \<open>With one allowed value the same slide and rule type do yield a violation.\<close>

lemma allow_list_example:
  "map description (validateSlideAgainstRule
     (slide_of 1 [\<lparr>content = ''Agenda'', fontSize = None, fontFamily = Some ''Comic Sans'',
                   color = Some ''FF0000'', isBold = Some False, isItalic = Some False\<rparr>] [])
     (rule_of Color ''text colors allowed: black'' (no_parameters\<lparr>allowedValues := Some [''black'']\<rparr>)))
   = [''Text color not in allowed list (found FF0000, only black are allowed)'']"
  by code_simp

subsection \<open>Custom rules\<close>

text \<open>
  C9. A rule of type custom yields no violation on any slide, whatever the slide holds
  and whatever the rule's parameters are: the checker itself returns the empty list, and
  so does the dispatch on such a rule, and so does the validation of a presentation
  against such a rule.
\<close>

theorem custom_rule_no_violations:
  "validateCustomRule s r = []
   \<and> (rule_type r = Custom \<longrightarrow>
        validateSlideAgainstRule s r = [] \<and> validatePresentation p [r] = [])"
  by (simp add: validatePresentation_def validateSlideAgainstRule_def validateCustomRule_def)

theorem custom_rule_no_violations_witness:
  "validateSlideAgainstRule
     (slide_of 1 [plain_run ''Agenda'' (Some 24)] [image_ref ''rId2''])
     (rule_of Custom ''be bold'' no_parameters) = []
   \<and> validatePresentation
       \<lparr>slides = [slide_of 1 [plain_run ''Agenda'' (Some 24)] [image_ref ''rId2'']], theme = None\<rparr>
       [rule_of Custom ''be bold'' no_parameters] = []"
  using custom_rule_no_violations
    [of "slide_of 1 [plain_run ''Agenda'' (Some 24)] [image_ref ''rId2'']"
        "rule_of Custom ''be bold'' no_parameters"
        "\<lparr>slides = [slide_of 1 [plain_run ''Agenda'' (Some 24)] [image_ref ''rId2'']], theme = None\<rparr>"]
  by simp

section \<open>Properties of the rule compiler\<close>

lemma font_size_minimum_bounds:
  "extractMinValue ''font size minimum is 36'' = Some 36
   \<and> extractMaxValue ''font size minimum is 36'' = None"
  by code_simp

lemma font_size_minimum_compiles:
  "parseMarkdownRules (\<lambda>markdownText. [ParagraphToken markdownText]) ''Font size minimum is 36''
   = [rule_of FontSize ''font size minimum is 36'' (no_parameters\<lparr>minValue := Some 36\<rparr>)]"
  by code_simp

lemma font_size_minimum_violation:
  "validateSlideAgainstRule (s\<lparr>texts := [t\<lparr>fontSize := Some 24\<rparr>]\<rparr>)
     (rule_of FontSize ''font size minimum is 36'' (no_parameters\<lparr>minValue := Some 36\<rparr>))
   = [\<lparr>slide = slideNumber s,
        rule = rule_of FontSize ''font size minimum is 36'' (no_parameters\<lparr>minValue := Some 36\<rparr>),
        description = ''Font size is below minimum requirement (found 24pt, minimum is 36pt)'',
        elements = [''Text '' @ [CHR 0x22] @ take 30 (content t) @ ''...'' @ [CHR 0x22] @ '': 24pt''],
        severity = Error\<rparr>]"
  by (simp add: validateSlideAgainstRule_def validateFontSizeRule_def validateFontSizeRule_text_def
        check_min_def check_max_def min_message_def fontSize_element_def
        number_to_string_24 number_to_string_36)

lemma font_size_minimum_mentions:
  "str_includes ''Font size is below minimum requirement (found 24pt, minimum is 36pt)'' ''24pt''
   \<and> str_includes ''Font size is below minimum requirement (found 24pt, minimum is 36pt)'' ''36pt''"
  by code_simp

text \<open>
  C6. The rule text "Font size minimum is 36" (one paragraph for the markdown lexer)
  compiles to one rule, of type font-size, with \<^verbatim>\<open>minValue\<close> 36 and no
  \<^verbatim>\<open>maxValue\<close>. Against that rule, a slide whose only text run has font size 24 yields
  exactly one violation, an error, and its description mentions 24pt and 36pt.
\<close>

theorem font_size_minimum_36_example:
  "parseMarkdownRules (\<lambda>markdownText. [ParagraphToken markdownText]) ''Font size minimum is 36''
     = [rule_of FontSize ''font size minimum is 36'' (no_parameters\<lparr>minValue := Some 36\<rparr>)]
   \<and> extractMinValue ''font size minimum is 36'' = Some 36
   \<and> extractMaxValue ''font size minimum is 36'' = None
   \<and> validateSlideAgainstRule (s\<lparr>texts := [t\<lparr>fontSize := Some 24\<rparr>]\<rparr>)
       (rule_of FontSize ''font size minimum is 36'' (no_parameters\<lparr>minValue := Some 36\<rparr>))
     = [\<lparr>slide = slideNumber s,
          rule = rule_of FontSize ''font size minimum is 36'' (no_parameters\<lparr>minValue := Some 36\<rparr>),
          description = ''Font size is below minimum requirement (found 24pt, minimum is 36pt)'',
          elements = [''Text '' @ [CHR 0x22] @ take 30 (content t) @ ''...'' @ [CHR 0x22] @ '': 24pt''],
          severity = Error\<rparr>]
   \<and> str_includes ''Font size is below minimum requirement (found 24pt, minimum is 36pt)'' ''24pt''
   \<and> str_includes ''Font size is below minimum requirement (found 24pt, minimum is 36pt)'' ''36pt''"
  using font_size_minimum_compiles font_size_minimum_bounds font_size_minimum_violation [where s = s and t = t]
    font_size_minimum_mentions
  by blast

text \<open>
  The rules the editor of the program proposes, given as the items of one list: the
  image rule is the one with \<^verbatim>\<open>forbidden = ["all"]\<close> and \<^verbatim>\<open>slideTypes = ["title"]\<close>.
\<close>

lemma proposed_rules_compile:
  "parseMarkdownRules
     (\<lambda>markdownText. [ListToken [''Text colors allowed: black, red'',
                                  ''All titles must be font size 36 or higher  '',
                                  ''No images allowed on title slides'']]) []
   = [\<lparr>rule_id = ''rule-1'', rule_description = ''text colors allowed: black, red'',
        rule_type = Color, parameters = no_parameters\<lparr>allowedValues := Some [''black'', ''red'']\<rparr>\<rparr>,
      \<lparr>rule_id = ''rule-2'', rule_description = ''all titles must be font size 36 or higher'',
        rule_type = FontSize, parameters = no_parameters\<rparr>,
      \<lparr>rule_id = ''rule-3'', rule_description = ''no images allowed on title slides'',
        rule_type = Image,
        parameters = no_parameters\<lparr>forbidden := Some [''all''], slideTypes := Some [''title'']\<rparr>\<rparr>]"
  by code_simp

section \<open>Properties of the package extractor\<close>

subsection \<open>Auxiliary facts\<close>





text \<open>A part that the parser rejects ends the loop with an exception.\<close>

lemma parse_slides_fails:
  "f \<in> set fs \<Longrightarrow> map_of files f = Some (Part c) \<Longrightarrow> c \<noteq> [] \<Longrightarrow> P c = None \<Longrightarrow>
     \<exists>e. parse_slides P files i fs = Inl e"
proof (induction fs arbitrary: i)
  case Nil
  then show ?case by simp
next
  case (Cons g fs)
  show ?case
  proof (cases "g = f")
    case True
    with Cons.prems show ?thesis
      by (simp add: read_string_def parseSlideXml_def)
  next
    case False
    with Cons.prems have "f \<in> set fs" by simp
    from Cons.IH [OF this Cons.prems(2-4)]
    obtain e where "parse_slides P files (i + 1) fs = Inl e" by blast
    then show ?thesis
      by (auto split: sum.splits option.splits)
  qed
qed

text \<open>A slide part as the extractor reads it: the run of size 2400 has 24 points.\<close>

lemma parseSlideXml_example:
  "parseSlideXml (\<lambda>xmlContent. Some one_run_slide) ''<p:sld>...</p:sld>'' 1
   = Inr (slide_of 1 [\<lparr>content = ''Agenda'', fontSize = Some 24, fontFamily = Some ''Arial'',
                          color = Some ''FF0000'', isBold = Some True, isItalic = Some False\<rparr>] [])"
  by code_simp

subsection \<open>A slide part that does not parse\<close>

text \<open>
  C3, as the program has it. If the content of one slide part is not empty and the XML
  parser throws on it, the extraction of the whole package fails with the program's
  error: no slide is skipped, and no presentation is returned.
\<close>

theorem corrupt_slide_fails_extraction:
  assumes "slideFile \<in> set (slideFiles files)"
    and "map_of files slideFile = Some (Part c)" and "c \<noteq> []" and "P c = None"
  shows "parsePptxFile P Q (Zip files) = Inl (PptxError failure_message)"
proof -
  from parse_slides_fails [of slideFile "slideFiles files" files c P 0] assms
  obtain e where "parse_slides P files 0 (slideFiles files) = Inl e" by blast
  then show ?thesis by (simp add: parsePptxFile_def parsePptxFile_try_def)
qed

theorem corrupt_slide_fails_extraction_witness:
  "''ppt/slides/slide1.xml''
     \<in> set (slideFiles [(''ppt/slides/slide1.xml'', Part ''<p:sld><![CDATA[''),
                         (''ppt/slides/slide2.xml'', Part ''<p:sld/>'')])
   \<and> demo_parser ''<p:sld><![CDATA['' = None
   \<and> parsePptxFile demo_parser demo_parser
       (Zip [(''ppt/slides/slide1.xml'', Part ''<p:sld><![CDATA[''),
             (''ppt/slides/slide2.xml'', Part ''<p:sld/>'')])
     = Inl (PptxError failure_message)"
proof -
  have a: "''ppt/slides/slide1.xml''
     \<in> set (slideFiles [(''ppt/slides/slide1.xml'', Part ''<p:sld><![CDATA[''),
                         (''ppt/slides/slide2.xml'', Part ''<p:sld/>'')])"
    by code_simp
  have b: "map_of [(''ppt/slides/slide1.xml'', Part ''<p:sld><![CDATA[''),
                   (''ppt/slides/slide2.xml'', Part ''<p:sld/>'')] ''ppt/slides/slide1.xml''
           = Some (Part ''<p:sld><![CDATA['')"
    by simp
  have c: "''<p:sld><![CDATA['' \<noteq> []" by simp
  have d: "demo_parser ''<p:sld><![CDATA['' = None" by simp
  from a b c d
    corrupt_slide_fails_extraction
      [of "''ppt/slides/slide1.xml''"
          "[(''ppt/slides/slide1.xml'', Part ''<p:sld><![CDATA[''),
            (''ppt/slides/slide2.xml'', Part ''<p:sld/>'')]"
          "''<p:sld><![CDATA[''" demo_parser demo_parser]
  show ?thesis by blast
qed

text \<open>
  The claim as stated fails: of three slide parts the second does not parse, and the
  extraction returns the error, not the two slides that do parse.
\<close>

theorem corrupt_slide_counterexample:
  "parsePptxFile demo_parser demo_parser
     (Zip [(''ppt/slides/slide1.xml'', Part ''<p:sld/>''),
           (''ppt/slides/slide2.xml'', Part ''<p:sld><!-- draft''),
           (''ppt/slides/slide3.xml'', Part ''<p:sld/>'')])
   = Inl (PptxError ''Failed to parse PowerPoint file. Please ensure it is a valid .pptx file.'')"
  by code_simp

subsection \<open>A package without slide parts\<close>

text \<open>
  C4, as the program has it. If the container unpacks and holds no slide part, the
  extraction returns a presentation with the empty slide list: without a theme where the
  container has no theme part (or a folder of that name), and with the theme read from
  the tree where the theme part is a readable file that the XML parser accepts. It fails,
  with the program's one error, exactly where the theme part cannot be read or the parser
  throws on it. There is no error for "no slides".
\<close>

theorem no_slide_parts_empty_presentation:
  assumes "slideFiles files = []"
  shows "(map_of files ''ppt/theme/theme1.xml'' = None
            \<or> map_of files ''ppt/theme/theme1.xml'' = Some Folder \<longrightarrow>
            parsePptxFile P Q (Zip files) = Inr \<lparr>slides = [], theme = None\<rparr>)
         \<and> (map_of files ''ppt/theme/theme1.xml'' = Some (Part themeContent)
              \<and> Q themeContent = Some tree \<longrightarrow>
            parsePptxFile P Q (Zip files) = Inr \<lparr>slides = [], theme = Some (theme_of tree)\<rparr>)
         \<and> (map_of files ''ppt/theme/theme1.xml'' = Some (Part themeContent)
              \<and> Q themeContent = None \<longrightarrow>
            parsePptxFile P Q (Zip files) = Inl (PptxError failure_message))
         \<and> (map_of files ''ppt/theme/theme1.xml'' = Some Unreadable \<longrightarrow>
            parsePptxFile P Q (Zip files) = Inl (PptxError failure_message))"
  using assms
  by (auto simp add: parsePptxFile_def parsePptxFile_try_def parse_theme_def parseThemeXml_def)

theorem no_slide_parts_empty_presentation_witness:
  "parsePptxFile demo_parser demo_parser
       (Zip [(''[Content_Types].xml'', Part ''<Types/>''),
             (''ppt/presentation.xml'', Part ''<p:presentation/>'')])
     = Inr \<lparr>slides = [], theme = None\<rparr>
   \<and> parsePptxFile demo_parser demo_parser
       (Zip [(''ppt/presentation.xml'', Part ''<p:presentation/>''),
             (''ppt/theme/theme1.xml'', Part ''<a:theme/>'')])
     = Inr \<lparr>slides = [], theme = Some (theme_of (NObj [(''a:theme'', NStr '''')]))\<rparr>
   \<and> parsePptxFile demo_parser demo_parser
       (Zip [(''ppt/presentation.xml'', Part ''<p:presentation/>''),
             (''ppt/theme/theme1.xml'', Part ''<a:theme><!-- draft'')])
     = Inl (PptxError failure_message)
   \<and> parsePptxFile demo_parser demo_parser
       (Zip [(''ppt/presentation.xml'', Part ''<p:presentation/>''),
             (''ppt/theme/theme1.xml'', Unreadable)])
     = Inl (PptxError failure_message)"
proof -
  have a: "slideFiles [(''[Content_Types].xml'', Part ''<Types/>''),
               (''ppt/presentation.xml'', Part ''<p:presentation/>'')] = []"
    by code_simp
  have b: "slideFiles [(''ppt/presentation.xml'', Part ''<p:presentation/>''),
             (''ppt/theme/theme1.xml'', Part ''<a:theme/>'')] = []"
    by code_simp
  have c: "slideFiles [(''ppt/presentation.xml'', Part ''<p:presentation/>''),
             (''ppt/theme/theme1.xml'', Part ''<a:theme><!-- draft'')] = []"
    by code_simp
  have d: "slideFiles [(''ppt/presentation.xml'', Part ''<p:presentation/>''),
             (''ppt/theme/theme1.xml'', Unreadable)] = []"
    by code_simp
  from no_slide_parts_empty_presentation [OF a, where P = demo_parser and Q = demo_parser]
  have 1: "parsePptxFile demo_parser demo_parser
       (Zip [(''[Content_Types].xml'', Part ''<Types/>''),
             (''ppt/presentation.xml'', Part ''<p:presentation/>'')])
     = Inr \<lparr>slides = [], theme = None\<rparr>"
    by simp
  from no_slide_parts_empty_presentation
    [OF b, where P = demo_parser and Q = demo_parser and themeContent = "''<a:theme/>''"
       and tree = "NObj [(''a:theme'', NStr '''')]"]
  have 2: "parsePptxFile demo_parser demo_parser
       (Zip [(''ppt/presentation.xml'', Part ''<p:presentation/>''),
             (''ppt/theme/theme1.xml'', Part ''<a:theme/>'')])
     = Inr \<lparr>slides = [], theme = Some (theme_of (NObj [(''a:theme'', NStr '''')]))\<rparr>"
    by simp
  from no_slide_parts_empty_presentation
    [OF c, where P = demo_parser and Q = demo_parser
       and themeContent = "''<a:theme><!-- draft''"]
  have 3: "parsePptxFile demo_parser demo_parser
       (Zip [(''ppt/presentation.xml'', Part ''<p:presentation/>''),
             (''ppt/theme/theme1.xml'', Part ''<a:theme><!-- draft'')])
     = Inl (PptxError failure_message)"
    by simp
  from no_slide_parts_empty_presentation [OF d, where P = demo_parser and Q = demo_parser]
  have 4: "parsePptxFile demo_parser demo_parser
       (Zip [(''ppt/presentation.xml'', Part ''<p:presentation/>''),
             (''ppt/theme/theme1.xml'', Unreadable)])
     = Inl (PptxError failure_message)"
    by simp
  from 1 2 3 4 show ?thesis by blast
qed

text \<open>
  The claim as stated fails: a container with a theme part and no slide part is
  accepted, with an empty slide list.
\<close>

theorem no_slide_parts_counterexample:
  "parsePptxFile demo_parser demo_parser
     (Zip [(''[Content_Types].xml'', Part ''<Types/>''),
           (''ppt/theme/theme1.xml'', Part ''<a:theme/>'')])
   = Inr \<lparr>slides = [], theme = Some \<lparr>colors = [], fonts = []\<rparr>\<rparr>"
  by code_simp

subsection \<open>Slide numbers\<close>






text \<open>In that package the parts at the positions 1 and 3 are parsed: the numbers are 1, 3.\<close>

lemma slide_positions_example:
  "map Suc (filter (\<lambda>j. nonempty_part (map_of
           [(''ppt/slides/slide3.xml'', Part ''<p:sld/>''),
            (''ppt/slides/slide2.xml'', Part ''''),
            (''ppt/slides/slide1.xml'', Part ''<p:sld/>'')]
           (slideFiles [(''ppt/slides/slide3.xml'', Part ''<p:sld/>''),
                        (''ppt/slides/slide2.xml'', Part ''''),
                        (''ppt/slides/slide1.xml'', Part ''<p:sld/>'')] ! j)))
         [0 ..< length (slideFiles [(''ppt/slides/slide3.xml'', Part ''<p:sld/>''),
                                    (''ppt/slides/slide2.xml'', Part ''''),
                                    (''ppt/slides/slide1.xml'', Part ''<p:sld/>'')])])
   = [1, 3]"
  by code_simp


end
